theory Spec2Isabelle
  imports Complex_Main
begin

section \<open>The XAUUSD strategy: data model\<close>

text \<open>
  The development embeds the class \<open>XAUUSDStrategy\<close> of
  \<open>src/lib/trading/strategies/xauusd-strategy.ts\<close>.

  A JavaScript \<open>number\<close> is modelled as a real: the inputs are finite numbers, and
  rounding, overflow and signed zeros are outside the model. The one place where the
  source can leave the finite numbers on finite inputs is the division
  \<open>profit / risk\<close> of \<open>calculateTrailingStop\<close>; its quotient is modelled with the
  IEEE results for a zero divisor (type \<open>quotient\<close> below).
\<close>

type_synonym number = real

datatype Side = Long | Short

text \<open>
  \<open>Candle\<close>, \<open>IndicatorValues\<close>, \<open>Signal\<close> and \<open>TradingConfig\<close> are declared in
  \<open>../types\<close>; the records hold the fields the strategy reads and writes.
\<close>

record Candle =
  openTime :: number
  closeTime :: number
  open' :: number
  high :: number
  low :: number
  close :: number

text \<open>Keltner channel and Bollinger bands are both \<open>{upper, middle, lower}\<close>.\<close>

record Bands =
  upper :: number
  middle :: number
  lower :: number

record MACDValue =
  macdLine :: number
  signalLine :: number
  histogram :: number

datatype Trend = Up | Down

record SuperTrendValue =
  stValue :: number
  trend :: Trend

record IndicatorValues =
  keltner :: Bands
  bollinger :: Bands
  macd :: MACDValue
  cci :: number
  supertrend :: SuperTrendValue
  atr :: number

text \<open>
  The configuration, as far as the strategy reads it:
  \<open>config.strategy.indicators.<family>.<parameter>\<close>,
  \<open>config.strategy.aggressiveness\<close> and \<open>config.strategy.trailingDistance\<close>.
  The fields \<open>indicators\<close> and \<open>aggressiveness\<close> of \<open>config.strategy\<close> are
  \<open>indicatorsConfig\<close> and \<open>aggressivenessLevel\<close> here: the source's names are those
  of function parameters below.
\<close>

record KeltnerChannelConfig =
  maPeriod :: number
  atrPeriod :: number
  atrMultiple :: number

record BollingerBandsConfig =
  bbPeriod :: number
  deviation :: number

record MACDConfig =
  fastPeriod :: number
  slowPeriod :: number
  signalPeriod :: number

record CCIConfig =
  cciPeriod :: number

record SuperTrendConfig =
  stPeriod :: number
  multiplier :: number

record IndicatorsConfig =
  keltnerConfig :: KeltnerChannelConfig
  bollingerConfig :: BollingerBandsConfig
  macdConfig :: MACDConfig
  cciConfig :: CCIConfig
  supertrendConfig :: SuperTrendConfig

record StrategyConfig =
  indicatorsConfig :: IndicatorsConfig
  aggressivenessLevel :: nat
  trailingDistance :: number

record TradingConfig =
  strategy :: StrategyConfig

section \<open>Risk manager\<close>

subsection \<open>Initial stop loss and take-profit ladder\<close>

definition calculateStopLoss :: "number \<Rightarrow> Side \<Rightarrow> IndicatorValues \<Rightarrow> number" where
  "calculateStopLoss entryPrice side indicators =
     (if side = Long
      then min (lower (keltner indicators)) (lower (bollinger indicators))
      else max (upper (keltner indicators)) (upper (bollinger indicators)))"

definition rMultiples :: "number list" where
  "rMultiples = [1.5, 2.5, 4.0]"

definition calculateTakeProfitLevels :: "number \<Rightarrow> number \<Rightarrow> Side \<Rightarrow> number list" where
  "calculateTakeProfitLevels entryPrice stopLoss side =
     (let risk = \<bar>entryPrice - stopLoss\<bar>
      in map (\<lambda>rMultiple.
                if side = Long
                then entryPrice + (risk * rMultiple)
                else entryPrice - (risk * rMultiple))
             rMultiples)"

subsection \<open>Trailing stop\<close>

text \<open>
  The quotient \<open>profit / risk\<close>. The divisor is the result of \<open>Math.abs\<close>, so it is
  never negative and a zero divisor is \<open>+0\<close>: a positive dividend gives \<open>Infinity\<close>, a
  negative one \<open>-Infinity\<close> and \<open>0 / 0\<close> gives \<open>NaN\<close>.
\<close>

datatype quotient = Finite real | PosInfinity | NegInfinity | NaN

definition js_div :: "number \<Rightarrow> number \<Rightarrow> quotient" where
  "js_div a b =
     (if b \<noteq> 0 then Finite (a / b)
      else if 0 < a then PosInfinity
      else if a < 0 then NegInfinity
      else NaN)"

text \<open>The comparison \<open>q >= c\<close> of a quotient with a finite number; false on \<open>NaN\<close>.\<close>

fun js_ge :: "quotient \<Rightarrow> number \<Rightarrow> bool" where
  "js_ge (Finite x) c = (c \<le> x)"
| "js_ge PosInfinity c = True"
| "js_ge NegInfinity c = False"
| "js_ge NaN c = False"

record TrailingResult =
  trailingStop :: "number option"
  highestPrice :: number
  lowestPrice :: number
  active :: bool

text \<open>
  The arguments \<open>highestPrice\<close> and \<open>lowestPrice\<close> of the source are
  \<open>number | undefined\<close>; they are \<open>highestPrice0\<close> and \<open>lowestPrice0\<close> here, since the
  result has fields of the same names.
\<close>

definition calculateTrailingStop ::
  "TradingConfig \<Rightarrow> number \<Rightarrow> number \<Rightarrow> number option \<Rightarrow> number option \<Rightarrow>
   number \<Rightarrow> Side \<Rightarrow> number \<Rightarrow> TrailingResult" where
  "calculateTrailingStop config entryPrice currentPrice highestPrice0 lowestPrice0
       initialStopLoss side atrNow =
     (let risk = \<bar>entryPrice - initialStopLoss\<bar>;
          trailingDistanceATR = trailingDistance (strategy config)
      in if side = Long then
           (let newHighest = (case highestPrice0 of
                                None \<Rightarrow> currentPrice
                              | Some h \<Rightarrow> max h currentPrice);
                profit = currentPrice - entryPrice;
                profitR = js_div profit risk
            in if js_ge profitR 1.0 then
                 (let breakeven = entryPrice;
                      stop = max breakeven (newHighest - (atrNow * trailingDistanceATR))
                  in \<lparr>trailingStop = Some stop, highestPrice = newHighest,
                      lowestPrice = 0, active = True\<rparr>)
               else \<lparr>trailingStop = None, highestPrice = newHighest,
                      lowestPrice = 0, active = False\<rparr>)
         else
           (let newLowest = (case lowestPrice0 of
                               None \<Rightarrow> currentPrice
                             | Some lo \<Rightarrow> min lo currentPrice);
                profit = entryPrice - currentPrice;
                profitR = js_div profit risk
            in if js_ge profitR 1.0 then
                 (let breakeven = entryPrice;
                      stop = min breakeven (newLowest + (atrNow * trailingDistanceATR))
                  in \<lparr>trailingStop = Some stop, highestPrice = 0,
                      lowestPrice = newLowest, active = True\<rparr>)
               else \<lparr>trailingStop = None, highestPrice = 0,
                      lowestPrice = newLowest, active = False\<rparr>))"

text \<open>
  The caller of \<open>calculateTrailingStop\<close> over the life of one position: one call per
  tick \<open>(currentPrice, atr)\<close>, with the same entry price, side and initial stop loss,
  and the extreme prices returned by one call passed to the next.
\<close>

fun trailing_run ::
  "TradingConfig \<Rightarrow> number \<Rightarrow> Side \<Rightarrow> number \<Rightarrow> number option \<Rightarrow> number option \<Rightarrow>
   (number \<times> number) list \<Rightarrow> TrailingResult list" where
  "trailing_run config entryPrice side initialStopLoss h lo [] = []"
| "trailing_run config entryPrice side initialStopLoss h lo ((currentPrice, atrNow) # ticks) =
     (let r = calculateTrailingStop config entryPrice currentPrice h lo
                initialStopLoss side atrNow
      in r # trailing_run config entryPrice side initialStopLoss
               (Some (highestPrice r)) (Some (lowestPrice r)) ticks)"

section \<open>Indicator adapters\<close>

text \<open>
  The indicator functions are imported from \<open>../indicators/*\<close>; the strategy takes
  them as given, and so does the model: they are the fields of a record passed to
  every function that calls one. An adapter of the snapshot builder returns its
  value (\<open>null\<close> is \<open>None\<close>) or throws; a thrown value is an \<open>Error\<close> with its message,
  or any other value with its rendering by \<open>String\<close>. The crossover detectors return
  a boolean.
\<close>

datatype Thrown = ErrorObject string | OtherValue string

record Adapters =
  getLatestKeltnerChannel :: "Candle list \<Rightarrow> KeltnerChannelConfig \<Rightarrow> Thrown + Bands option"
  getLatestBollingerBands :: "Candle list \<Rightarrow> BollingerBandsConfig \<Rightarrow> Thrown + Bands option"
  getLatestMACD :: "Candle list \<Rightarrow> MACDConfig \<Rightarrow> Thrown + MACDValue option"
  getLatestCCI :: "Candle list \<Rightarrow> CCIConfig \<Rightarrow> Thrown + number option"
  getLatestSuperTrend ::
    "Candle list \<Rightarrow> SuperTrendConfig \<Rightarrow> Thrown + SuperTrendValue option"
  calculateATR :: "number list \<Rightarrow> number list \<Rightarrow> number list \<Rightarrow> number \<Rightarrow> Thrown + number list"
  isMACDBullishCrossover :: "Candle list \<Rightarrow> MACDConfig \<Rightarrow> bool"
  isMACDBearishCrossover :: "Candle list \<Rightarrow> MACDConfig \<Rightarrow> bool"

section \<open>Snapshot builder\<close>

text \<open>
  The reasons of checks and signals (explained with the entry evaluator below), and
  what the strategy writes to the console: the error line of \<open>calculateIndicators\<close>
  and the line \<open>[SIGNAL] LONG/SHORT at check n: reason\<close> of \<open>generateSignal\<close>.
\<close>

datatype Reason =
    NoCandleData
  | InsufficientDataForIndicators
  | NoEntryConditionsMet
  | PriceNotAboveKC number number
  | PriceNotAboveBB number number
  | MACDNoBullishCrossover
  | CCINotStrongLong number number
  | SuperTrendNotBullish
  | CCINotPositive number
  | LongConservative number
  | LongModerate number
  | LongAggressive number
  | PriceNotBelowKC number number
  | PriceNotBelowBB number number
  | MACDNoBearishCrossover
  | CCINotStrongShort number number
  | SuperTrendNotBearish
  | CCINotNegative number
  | ShortConservative number
  | ShortModerate number
  | ShortAggressive number

datatype LogEntry =
    ErrorCalculatingIndicators Thrown
  | SignalFound Side nat Reason

text \<open>\<open>error instanceof Error ? error.message : String(error)\<close>\<close>

fun errorMsg :: "Thrown \<Rightarrow> string" where
  "errorMsg (ErrorObject message) = message"
| "errorMsg (OtherValue rendering) = rendering"

text \<open>\<open>String.prototype.includes\<close>: the second string occurs in the first.\<close>

fun str_includes :: "string \<Rightarrow> string \<Rightarrow> bool" where
  "str_includes [] t = (t = [])"
| "str_includes (c # s) t = (take (length t) (c # s) = t \<or> str_includes s t)"

text \<open>
  The \<open>try\<close> block of \<open>calculateIndicators\<close>: the five adapters and the ATR series
  are called in the source's order, and the first that throws ends the block with
  the thrown value (\<open>Inl\<close>). Only then are the results tested for \<open>null\<close>.
\<close>

definition calculateIndicators_try ::
  "Adapters \<Rightarrow> TradingConfig \<Rightarrow> Candle list \<Rightarrow> Thrown + IndicatorValues option" where
  "calculateIndicators_try lib config candles =
     (let ic = indicatorsConfig (strategy config);
          keltnerCfg = \<lparr>maPeriod = maPeriod (keltnerConfig ic),
                        atrPeriod = atrPeriod (keltnerConfig ic),
                        atrMultiple = atrMultiple (keltnerConfig ic)\<rparr>;
          bollingerCfg = \<lparr>bbPeriod = bbPeriod (bollingerConfig ic),
                          deviation = deviation (bollingerConfig ic)\<rparr>;
          macdCfg = \<lparr>fastPeriod = fastPeriod (macdConfig ic),
                     slowPeriod = slowPeriod (macdConfig ic),
                     signalPeriod = signalPeriod (macdConfig ic)\<rparr>;
          cciCfg = \<lparr>cciPeriod = cciPeriod (cciConfig ic)\<rparr>;
          supertrendCfg = \<lparr>stPeriod = stPeriod (supertrendConfig ic),
                           multiplier = multiplier (supertrendConfig ic)\<rparr>
      in case getLatestKeltnerChannel lib candles keltnerCfg of
           Inl err \<Rightarrow> Inl err
         | Inr k \<Rightarrow>
       (case getLatestBollingerBands lib candles bollingerCfg of
           Inl err \<Rightarrow> Inl err
         | Inr b \<Rightarrow>
       (case getLatestMACD lib candles macdCfg of
           Inl err \<Rightarrow> Inl err
         | Inr m \<Rightarrow>
       (case getLatestCCI lib candles cciCfg of
           Inl err \<Rightarrow> Inl err
         | Inr c \<Rightarrow>
       (case getLatestSuperTrend lib candles supertrendCfg of
           Inl err \<Rightarrow> Inl err
         | Inr st \<Rightarrow>
       (case calculateATR lib (map high candles) (map low candles) (map close candles)
               (atrPeriod (keltnerConfig ic)) of
           Inl err \<Rightarrow> Inl err
         | Inr atrValues \<Rightarrow>
             if k = None \<or> b = None \<or> m = None \<or> c = None \<or> st = None
                \<or> length atrValues = 0
             then Inr None
             else Inr (Some \<lparr>keltner = the k, bollinger = the b, macd = the m,
                              cci = the c, supertrend = the st,
                              atr = atrValues ! (length atrValues - 1)\<rparr>)))))))"

text \<open>
  \<open>calculateIndicators\<close> with its length check and its \<open>catch\<close> block; the console is
  passed in and returned, with the line \<open>console.error\<close> writes for a thrown value
  whose message does not include \<open>Insufficient data\<close>.
\<close>

definition calculateIndicators ::
  "Adapters \<Rightarrow> TradingConfig \<Rightarrow> Candle list \<Rightarrow> LogEntry list \<Rightarrow>
   IndicatorValues option \<times> LogEntry list" where
  "calculateIndicators lib config candles console =
     (if length candles < 35 then (None, console)
      else case calculateIndicators_try lib config candles of
             Inr result \<Rightarrow> (result, console)
           | Inl err \<Rightarrow>
               if \<not> str_includes (errorMsg err) ''Insufficient data''
               then (None, console @ [ErrorCalculatingIndicators err])
               else (None, console))"

section \<open>Entry evaluator\<close>

text \<open>
  The \<open>reason\<close> of a check is a template literal of the source; it is modelled by one
  constructor of \<open>Reason\<close> per template, applied to the numbers the template
  interpolates (before \<open>toFixed\<close> renders them):
  \<^item> \<open>PriceNotAboveKC price upper\<close>, \<open>PriceNotAboveBB price upper\<close>: the price has
    not broken the KC (the BB) upper band, \<open>(price <= upper)\<close>;
  \<^item> \<open>MACDNoBullishCrossover\<close>: no MACD golden cross;
  \<^item> \<open>CCINotStrongLong cci threshold\<close>: the CCI is not strong enough,
    \<open>(cci <= 100)\<close> or \<open>(cci <= 50)\<close>;
  \<^item> \<open>SuperTrendNotBullish\<close>: the SuperTrend is not an up trend;
  \<^item> \<open>CCINotPositive cci\<close>: the CCI is negative, \<open>(cci <= 0)\<close>;
  \<^item> \<open>LongConservative cci\<close>, \<open>LongModerate cci\<close>, \<open>LongAggressive cci\<close>: the three
    messages of a long signal, each with \<open>CCI=cci\<close>;
  and the mirrored constructors for the short side.
\<close>

record EntryCheck =
  signal :: bool
  reason :: Reason

definition checkLongEntry ::
  "Adapters \<Rightarrow> number \<Rightarrow> IndicatorValues \<Rightarrow> Candle list \<Rightarrow> nat \<Rightarrow>
   IndicatorValues option \<Rightarrow> EntryCheck" where
  "checkLongEntry lib price indicators1m candles1m aggressiveness indicators5m =
     (let priceAboveKC = price > upper (keltner indicators1m)
      in if \<not> priceAboveKC
         then \<lparr>signal = False,
               reason = PriceNotAboveKC price (upper (keltner indicators1m))\<rparr>
         else
     (let priceAboveBB = price > upper (bollinger indicators1m)
      in if \<not> priceAboveBB
         then \<lparr>signal = False,
               reason = PriceNotAboveBB price (upper (bollinger indicators1m))\<rparr>
         else
     (let macdBullishCrossover =
            isMACDBullishCrossover lib candles1m
              \<lparr>fastPeriod = 12, slowPeriod = 26, signalPeriod = 9\<rparr>
      in if \<not> macdBullishCrossover
         then \<lparr>signal = False, reason = MACDNoBullishCrossover\<rparr>
         else if aggressiveness = 1 then
           (let cciStrong = cci indicators1m > 100;
                supertrendBullish = (trend (supertrend indicators1m) = Up)
            in if \<not> cciStrong
               then \<lparr>signal = False, reason = CCINotStrongLong (cci indicators1m) 100\<rparr>
               else if \<not> supertrendBullish
               then \<lparr>signal = False, reason = SuperTrendNotBullish\<rparr>
               else \<lparr>signal = True, reason = LongConservative (cci indicators1m)\<rparr>)
         else if aggressiveness = 2 then
           (let cciModerate = cci indicators1m > 50;
                supertrendBullish = (trend (supertrend indicators1m) = Up)
            in if \<not> cciModerate
               then \<lparr>signal = False, reason = CCINotStrongLong (cci indicators1m) 50\<rparr>
               else if \<not> supertrendBullish
               then \<lparr>signal = False, reason = SuperTrendNotBullish\<rparr>
               else \<lparr>signal = True, reason = LongModerate (cci indicators1m)\<rparr>)
         else
           (let cciPositive = cci indicators1m > 0
            in if \<not> cciPositive
               then \<lparr>signal = False, reason = CCINotPositive (cci indicators1m)\<rparr>
               else \<lparr>signal = True, reason = LongAggressive (cci indicators1m)\<rparr>))))"

definition checkShortEntry ::
  "Adapters \<Rightarrow> number \<Rightarrow> IndicatorValues \<Rightarrow> Candle list \<Rightarrow> nat \<Rightarrow>
   IndicatorValues option \<Rightarrow> EntryCheck" where
  "checkShortEntry lib price indicators1m candles1m aggressiveness indicators5m =
     (let priceBelowKC = price < lower (keltner indicators1m)
      in if \<not> priceBelowKC
         then \<lparr>signal = False,
               reason = PriceNotBelowKC price (lower (keltner indicators1m))\<rparr>
         else
     (let priceBelowBB = price < lower (bollinger indicators1m)
      in if \<not> priceBelowBB
         then \<lparr>signal = False,
               reason = PriceNotBelowBB price (lower (bollinger indicators1m))\<rparr>
         else
     (let macdBearishCrossover =
            isMACDBearishCrossover lib candles1m
              \<lparr>fastPeriod = 12, slowPeriod = 26, signalPeriod = 9\<rparr>
      in if \<not> macdBearishCrossover
         then \<lparr>signal = False, reason = MACDNoBearishCrossover\<rparr>
         else if aggressiveness = 1 then
           (let cciStrong = cci indicators1m < - 100;
                supertrendBearish = (trend (supertrend indicators1m) = Down)
            in if \<not> cciStrong
               then \<lparr>signal = False, reason = CCINotStrongShort (cci indicators1m) (- 100)\<rparr>
               else if \<not> supertrendBearish
               then \<lparr>signal = False, reason = SuperTrendNotBearish\<rparr>
               else \<lparr>signal = True, reason = ShortConservative (cci indicators1m)\<rparr>)
         else if aggressiveness = 2 then
           (let cciModerate = cci indicators1m < - 50;
                supertrendBearish = (trend (supertrend indicators1m) = Down)
            in if \<not> cciModerate
               then \<lparr>signal = False, reason = CCINotStrongShort (cci indicators1m) (- 50)\<rparr>
               else if \<not> supertrendBearish
               then \<lparr>signal = False, reason = SuperTrendNotBearish\<rparr>
               else \<lparr>signal = True, reason = ShortModerate (cci indicators1m)\<rparr>)
         else
           (let cciNegative = cci indicators1m < 0
            in if \<not> cciNegative
               then \<lparr>signal = False, reason = CCINotNegative (cci indicators1m)\<rparr>
               else \<lparr>signal = True, reason = ShortAggressive (cci indicators1m)\<rparr>))))"

section \<open>Signal generator\<close>

datatype SignalType = LongSignal | ShortSignal | NoSignal

text \<open>
  A \<open>Signal\<close> is \<open>{type, reason, timestamp, price, indicators?}\<close>; an absent
  \<open>indicators\<close> is \<open>None\<close>.
\<close>

record Signal =
  sigType :: SignalType
  sigReason :: Reason
  sigTimestamp :: number
  sigPrice :: number
  sigIndicators :: "IndicatorValues option"

text \<open>
  The mutable fields of the instance (the four debug counters), together with the
  console output so far. \<open>generateSignal\<close> takes the state and returns the new one;
  \<open>now\<close> is the value \<open>Date.now()\<close> would return during the call.
\<close>

record StrategyState =
  signalCheckCount :: nat
  indicatorFailCount :: nat
  longCheckCount :: nat
  shortCheckCount :: nat
  consoleOutput :: "LogEntry list"

definition generateSignal ::
  "Adapters \<Rightarrow> TradingConfig \<Rightarrow> number \<Rightarrow> Candle list \<Rightarrow> Candle list option \<Rightarrow>
   StrategyState \<Rightarrow> Signal \<times> StrategyState" where
  "generateSignal lib config now candles1m candles5m self =
     (let self1 = self\<lparr>signalCheckCount := signalCheckCount self + 1\<rparr>
      in if length candles1m = 0
         then (\<lparr>sigType = NoSignal, sigReason = NoCandleData, sigTimestamp = now,
                 sigPrice = 0, sigIndicators = None\<rparr>, self1)
         else
     (let latestCandle1m = candles1m ! (length candles1m - 1);
          price = close latestCandle1m;
          (indicators1m, console1) =
             calculateIndicators lib config candles1m (consoleOutput self1)
      in case indicators1m of
           None \<Rightarrow>
             (\<lparr>sigType = NoSignal, sigReason = InsufficientDataForIndicators,
                sigTimestamp = closeTime latestCandle1m, sigPrice = price,
                sigIndicators = None\<rparr>,
              self1\<lparr>indicatorFailCount := indicatorFailCount self1 + 1,
                    consoleOutput := console1\<rparr>)
         | Some ind1m \<Rightarrow>
     (let (indicators5m, console2) =
             (case candles5m of
                None \<Rightarrow> (None, console1)
              | Some c5m \<Rightarrow>
                  if length c5m > 0 then calculateIndicators lib config c5m console1
                  else (None, console1));
          longCheck = checkLongEntry lib price ind1m candles1m
                        (aggressivenessLevel (strategy config)) indicators5m
      in if signal longCheck
         then (\<lparr>sigType = LongSignal, sigReason = reason longCheck,
                 sigTimestamp = closeTime latestCandle1m, sigPrice = price,
                 sigIndicators = Some ind1m\<rparr>,
               self1\<lparr>longCheckCount := longCheckCount self1 + 1,
                     consoleOutput :=
                       console2 @ [SignalFound Long (signalCheckCount self1)
                                     (reason longCheck)]\<rparr>)
         else
     (let shortCheck = checkShortEntry lib price ind1m candles1m
                         (aggressivenessLevel (strategy config)) indicators5m
      in if signal shortCheck
         then (\<lparr>sigType = ShortSignal, sigReason = reason shortCheck,
                 sigTimestamp = closeTime latestCandle1m, sigPrice = price,
                 sigIndicators = Some ind1m\<rparr>,
               self1\<lparr>shortCheckCount := shortCheckCount self1 + 1,
                     consoleOutput :=
                       console2 @ [SignalFound Short (signalCheckCount self1)
                                     (reason shortCheck)]\<rparr>)
         else (\<lparr>sigType = NoSignal, sigReason = NoEntryConditionsMet,
                 sigTimestamp = closeTime latestCandle1m, sigPrice = price,
                 sigIndicators = Some ind1m\<rparr>,
               self1\<lparr>consoleOutput := console2\<rparr>)))))"

section \<open>The specification's auxiliary filters\<close>

text \<open>
  The table of the entry evaluator, as the specification words it: per tier, the
  auxiliary condition on the CCI and the SuperTrend. The theorems below compare
  \<open>checkLongEntry\<close> and \<open>checkShortEntry\<close> with it.
\<close>

definition spec_long_auxiliary :: "nat \<Rightarrow> IndicatorValues \<Rightarrow> bool" where
  "spec_long_auxiliary tier ind =
     ((tier = 1 \<and> cci ind > 100 \<and> trend (supertrend ind) = Up)
      \<or> (tier = 2 \<and> cci ind > 50 \<and> trend (supertrend ind) = Up)
      \<or> (tier = 3 \<and> cci ind > 0))"

definition spec_short_auxiliary :: "nat \<Rightarrow> IndicatorValues \<Rightarrow> bool" where
  "spec_short_auxiliary tier ind =
     ((tier = 1 \<and> cci ind < - 100 \<and> trend (supertrend ind) = Down)
      \<or> (tier = 2 \<and> cci ind < - 50 \<and> trend (supertrend ind) = Down)
      \<or> (tier = 3 \<and> cci ind < 0))"

section \<open>Concrete inputs\<close>

text \<open>
  A configuration, a snapshot, a candle and adapters with fixed results, on which the
  theorems below are instantiated: the price 2050 is above a Keltner upper band of
  2045 and a Bollinger upper band of 2040, with a CCI of 120 and an up trend.
\<close>

definition example_config :: TradingConfig where
  "example_config =
     \<lparr>strategy =
        \<lparr>indicatorsConfig =
           \<lparr>keltnerConfig = \<lparr>maPeriod = 20, atrPeriod = 10, atrMultiple = 2\<rparr>,
            bollingerConfig = \<lparr>bbPeriod = 20, deviation = 2\<rparr>,
            macdConfig = \<lparr>fastPeriod = 12, slowPeriod = 26, signalPeriod = 9\<rparr>,
            cciConfig = \<lparr>cciPeriod = 20\<rparr>,
            supertrendConfig = \<lparr>stPeriod = 10, multiplier = 3\<rparr>\<rparr>,
         aggressivenessLevel = 1,
         trailingDistance = 1\<rparr>\<rparr>"

definition example_snapshot :: IndicatorValues where
  "example_snapshot =
     \<lparr>keltner = \<lparr>upper = 2045, middle = 2030, lower = 2015\<rparr>,
      bollinger = \<lparr>upper = 2040, middle = 2030, lower = 2020\<rparr>,
      macd = \<lparr>macdLine = 3, signalLine = 2, histogram = 1\<rparr>,
      cci = 120,
      supertrend = \<lparr>stValue = 2020, trend = Up\<rparr>,
      atr = 5\<rparr>"

definition example_candle :: Candle where
  "example_candle =
     \<lparr>openTime = 0, closeTime = 60000, open' = 2044, high = 2051, low = 2043,
      close = 2050\<rparr>"

definition example_adapters :: Adapters where
  "example_adapters =
     \<lparr>getLatestKeltnerChannel = (\<lambda>candles c. Inr (Some (keltner example_snapshot))),
      getLatestBollingerBands = (\<lambda>candles c. Inr (Some (bollinger example_snapshot))),
      getLatestMACD = (\<lambda>candles c. Inr (Some (macd example_snapshot))),
      getLatestCCI = (\<lambda>candles c. Inr (Some (cci example_snapshot))),
      getLatestSuperTrend = (\<lambda>candles c. Inr (Some (supertrend example_snapshot))),
      calculateATR = (\<lambda>highs lows closes p. Inr [4, 5]),
      isMACDBullishCrossover = (\<lambda>candles c. True),
      isMACDBearishCrossover = (\<lambda>candles c. False)\<rparr>"

section \<open>Properties of the risk manager\<close>

text \<open>
  Claim C7. For every entry price, stop loss and side, \<open>calculateTakeProfitLevels\<close>
  returns exactly three levels: the entry price plus (long) or minus (short) 1.5, 2.5
  and 4.0 times the risk distance \<open>|entryPrice - stopLoss|\<close>, in that order. At entry
  2000 with stop 1990, long, the ladder is 2015, 2025, 2040.
\<close>

theorem calculateTakeProfitLevels_ladder:
  "calculateTakeProfitLevels e s Long =
     [e + 1.5 * \<bar>e - s\<bar>, e + 2.5 * \<bar>e - s\<bar>, e + 4.0 * \<bar>e - s\<bar>]
   \<and> calculateTakeProfitLevels e s Short =
     [e - 1.5 * \<bar>e - s\<bar>, e - 2.5 * \<bar>e - s\<bar>, e - 4.0 * \<bar>e - s\<bar>]
   \<and> length (calculateTakeProfitLevels e s side) = 3
   \<and> calculateTakeProfitLevels 2000 1990 Long = [2015, 2025, 2040]"
  by (simp add: calculateTakeProfitLevels_def rMultiples_def Let_def)

text \<open>
  Claim C8. \<open>calculateStopLoss\<close> returns the lesser of the Keltner and the Bollinger
  lower band for a long position and the greater of the two upper bands for a short
  one; the entry price does not influence the result.
\<close>

theorem calculateStopLoss_bands:
  "calculateStopLoss e Long ind =
     (if lower (keltner ind) \<le> lower (bollinger ind)
      then lower (keltner ind) else lower (bollinger ind))
   \<and> calculateStopLoss e Short ind =
     (if upper (keltner ind) \<le> upper (bollinger ind)
      then upper (bollinger ind) else upper (keltner ind))
   \<and> calculateStopLoss e side ind = calculateStopLoss e' side ind"
  by (simp add: calculateStopLoss_def min_def max_def)

section \<open>Properties of the trailing stop\<close>

subsection \<open>One call\<close>

text \<open>The result of one call, per side, in closed form.\<close>

lemma trailing_long:
  "calculateTrailingStop cfg e c h lo sl Long a =
     (let nh = (case h of None \<Rightarrow> c | Some x \<Rightarrow> max x c);
          act = js_ge (js_div (c - e) \<bar>e - sl\<bar>) 1
      in \<lparr>trailingStop =
            (if act then Some (max e (nh - a * trailingDistance (strategy cfg))) else None),
          highestPrice = nh, lowestPrice = 0, active = act\<rparr>)"
  by (simp add: calculateTrailingStop_def Let_def)

lemma trailing_short:
  "calculateTrailingStop cfg e c h lo sl Short a =
     (let nl = (case lo of None \<Rightarrow> c | Some x \<Rightarrow> min x c);
          act = js_ge (js_div (e - c) \<bar>e - sl\<bar>) 1
      in \<lparr>trailingStop =
            (if act then Some (min e (nl + a * trailingDistance (strategy cfg))) else None),
          highestPrice = 0, lowestPrice = nl, active = act\<rparr>)"
  by (simp add: calculateTrailingStop_def Let_def)

lemma length_trailing_run [simp]:
  "length (trailing_run cfg e side sl h lo ticks) = length ticks"
  by (induction ticks arbitrary: h lo) (auto simp: Let_def)

text \<open>
  Claim C6. On every call where the profit in R is at least 1.0 (the quotient
  \<open>profit / risk\<close> compared with \<open>>= 1.0\<close>), the trailing stop is not \<open>null\<close>, and it is at
  least the entry price for a long position and at most the entry price for a short
  one, whatever the ATR, the trailing distance and the extreme price carried in.
\<close>

theorem breakeven_lock:
  "(js_ge (js_div (c - e) \<bar>e - sl\<bar>) 1 \<longrightarrow>
      (\<exists>s. trailingStop (calculateTrailingStop cfg e c h lo sl Long a) = Some s \<and> e \<le> s))
   \<and> (js_ge (js_div (e - c) \<bar>e - sl\<bar>) 1 \<longrightarrow>
      (\<exists>s. trailingStop (calculateTrailingStop cfg e c h lo sl Short a) = Some s \<and> s \<le> e))"
  by (simp add: trailing_long trailing_short Let_def)

theorem breakeven_lock_witness:
  "js_ge (js_div (110 - 100) \<bar>100 - 90\<bar>) 1
   \<and> trailingStop (calculateTrailingStop example_config 100 110 None None 90 Long 25) = Some 100
   \<and> js_ge (js_div (100 - 90) \<bar>100 - 110\<bar>) 1
   \<and> trailingStop (calculateTrailingStop example_config 100 90 None None 110 Short 25) = Some 100"
  using breakeven_lock [of 110 100 90 example_config None None 25]
        breakeven_lock [of 90 100 110 example_config None None 25]
  by (simp add: calculateTrailingStop_def js_div_def example_config_def)

text \<open>
  Claim C10. \<open>calculateTrailingStop\<close> divides the profit by
  \<open>risk = |entryPrice - initialStopLoss|\<close> on every call and for both sides, with no
  guard on the divisor: the \<open>active\<close> flag is the comparison of that quotient with 1.0.
  When \<open>entryPrice\<close> differs from \<open>initialStopLoss\<close> the quotient is the finite number
  \<open>profit / risk\<close>. When they are equal the divisor is zero and the quotient is not a
  finite number: the call is then active exactly when the profit is positive
  (\<open>Infinity >= 1.0\<close>), and passive on \<open>-Infinity\<close> and \<open>NaN\<close>. The trailing stop, when
  not \<open>null\<close>, is a number in every case (it has type \<open>number option\<close>).
\<close>

theorem profitR_division_unguarded:
  "active (calculateTrailingStop cfg e c h lo sl Long a) =
     js_ge (js_div (c - e) \<bar>e - sl\<bar>) 1
   \<and> active (calculateTrailingStop cfg e c h lo sl Short a) =
     js_ge (js_div (e - c) \<bar>e - sl\<bar>) 1
   \<and> (e \<noteq> sl \<longrightarrow>
        js_div (c - e) \<bar>e - sl\<bar> = Finite ((c - e) / \<bar>e - sl\<bar>)
      \<and> js_div (e - c) \<bar>e - sl\<bar> = Finite ((e - c) / \<bar>e - sl\<bar>)
      \<and> active (calculateTrailingStop cfg e c h lo sl Long a) = (1 \<le> (c - e) / \<bar>e - sl\<bar>)
      \<and> active (calculateTrailingStop cfg e c h lo sl Short a) = (1 \<le> (e - c) / \<bar>e - sl\<bar>))
   \<and> (e = sl \<longrightarrow>
        (\<forall>x. js_div (c - e) \<bar>e - sl\<bar> \<noteq> Finite x)
      \<and> (\<forall>x. js_div (e - c) \<bar>e - sl\<bar> \<noteq> Finite x)
      \<and> active (calculateTrailingStop cfg e c h lo sl Long a) = (e < c)
      \<and> active (calculateTrailingStop cfg e c h lo sl Short a) = (c < e))"
  by (simp add: trailing_long trailing_short Let_def js_div_def)

theorem profitR_division_unguarded_witness:
  "(100::real) \<noteq> 90
   \<and> js_div (110 - 100) \<bar>100 - 90\<bar> = Finite 1
   \<and> active (calculateTrailingStop example_config 100 110 None None 90 Long 1)
   \<and> js_div (110 - 100) \<bar>100 - 100\<bar> = PosInfinity
   \<and> active (calculateTrailingStop example_config 100 110 None None 100 Long 1)
   \<and> trailingStop (calculateTrailingStop example_config 100 110 None None 100 Long 1)
       = Some 109
   \<and> js_div (100 - 100) \<bar>100 - 100\<bar> = NaN
   \<and> \<not> active (calculateTrailingStop example_config 100 100 None None 100 Long 1)
   \<and> js_div (100 - 110) \<bar>100 - 100\<bar> = NegInfinity
   \<and> \<not> active (calculateTrailingStop example_config 100 110 None None 100 Short 1)"
  using profitR_division_unguarded [of example_config 100 110 None None 90 1]
        profitR_division_unguarded [of example_config 100 110 None None 100 1]
        profitR_division_unguarded [of example_config 100 100 None None 100 1]
  by (simp add: calculateTrailingStop_def js_div_def example_config_def)

subsection \<open>Successive calls for one position\<close>

lemma run_nth_fields:
  "k < length ticks \<Longrightarrow>
   active (trailing_run cfg e side sl h lo ticks ! k) =
     js_ge (js_div (if side = Long then fst (ticks ! k) - e else e - fst (ticks ! k))
                   \<bar>e - sl\<bar>) 1
   \<and> trailingStop (trailing_run cfg e side sl h lo ticks ! k) =
     (if active (trailing_run cfg e side sl h lo ticks ! k)
      then Some (if side = Long
                 then max e (highestPrice (trailing_run cfg e side sl h lo ticks ! k)
                             - snd (ticks ! k) * trailingDistance (strategy cfg))
                 else min e (lowestPrice (trailing_run cfg e side sl h lo ticks ! k)
                             + snd (ticks ! k) * trailingDistance (strategy cfg)))
      else None)"
proof (induction ticks arbitrary: h lo k)
  case Nil
  then show ?case by simp
next
  case (Cons t ticks)
  obtain c a where t: "t = (c, a)" by (cases t)
  show ?case
  proof (cases k)
    case 0
    show ?thesis
      by (cases side) (simp_all add: 0 t Let_def trailing_long trailing_short)
  next
    case (Suc k')
    with Cons.prems have "k' < length ticks" by simp
    from Cons.IH [OF this] show ?thesis
      by (simp add: Suc t Let_def)
  qed
qed

lemma run_highest_lower_bound:
  "k < length ticks \<Longrightarrow>
   x \<le> highestPrice (trailing_run cfg e Long sl (Some x) lo ticks ! k)"
proof (induction ticks arbitrary: x lo k)
  case Nil
  then show ?case by simp
next
  case (Cons t ticks)
  obtain c a where t: "t = (c, a)" by (cases t)
  show ?case
  proof (cases k)
    case 0
    show ?thesis by (simp add: 0 t Let_def trailing_long)
  next
    case (Suc k')
    with Cons.prems have k': "k' < length ticks" by simp
    have "max x c \<le> highestPrice (trailing_run cfg e Long sl (Some (max x c)) (Some 0) ticks ! k')"
      by (rule Cons.IH [OF k'])
    then show ?thesis
      by (simp add: Suc t Let_def trailing_long)
  qed
qed

lemma run_lowest_upper_bound:
  "k < length ticks \<Longrightarrow>
   lowestPrice (trailing_run cfg e Short sl h (Some x) ticks ! k) \<le> x"
proof (induction ticks arbitrary: x h k)
  case Nil
  then show ?case by simp
next
  case (Cons t ticks)
  obtain c a where t: "t = (c, a)" by (cases t)
  show ?case
  proof (cases k)
    case 0
    show ?thesis by (simp add: 0 t Let_def trailing_short)
  next
    case (Suc k')
    with Cons.prems have k': "k' < length ticks" by simp
    have "lowestPrice (trailing_run cfg e Short sl (Some 0) (Some (min x c)) ticks ! k') \<le> min x c"
      by (rule Cons.IH [OF k'])
    then show ?thesis
      by (simp add: Suc t Let_def trailing_short)
  qed
qed

lemma run_highest_mono:
  "i < j \<Longrightarrow> j < length ticks \<Longrightarrow>
   highestPrice (trailing_run cfg e Long sl h lo ticks ! i)
     \<le> highestPrice (trailing_run cfg e Long sl h lo ticks ! j)"
proof (induction ticks arbitrary: h lo i j)
  case Nil
  then show ?case by simp
next
  case (Cons t ticks)
  obtain c a where t: "t = (c, a)" by (cases t)
  from Cons.prems obtain j' where j: "j = Suc j'" and j': "j' < length ticks"
    by (cases j) auto
  show ?case
  proof (cases i)
    case 0
    show ?thesis
      using run_highest_lower_bound [OF j']
      by (simp add: 0 j t Let_def)
  next
    case (Suc i')
    with Cons.prems j have "i' < j'" by simp
    from Cons.IH [OF this j'] show ?thesis
      by (simp add: Suc j t Let_def)
  qed
qed


lemma run_lowest_mono:
  "i < j \<Longrightarrow> j < length ticks \<Longrightarrow>
   lowestPrice (trailing_run cfg e Short sl h lo ticks ! j)
     \<le> lowestPrice (trailing_run cfg e Short sl h lo ticks ! i)"
proof (induction ticks arbitrary: h lo i j)
  case Nil
  then show ?case by simp
next
  case (Cons t ticks)
  obtain c a where t: "t = (c, a)" by (cases t)
  from Cons.prems obtain j' where j: "j = Suc j'" and j': "j' < length ticks"
    by (cases j) auto
  show ?case
  proof (cases i)
    case 0
    show ?thesis
      using run_lowest_upper_bound [OF j']
      by (simp add: 0 j t Let_def)
  next
    case (Suc i')
    with Cons.prems j have "i' < j'" by simp
    from Cons.IH [OF this j'] show ?thesis
      by (simp add: Suc j t Let_def)
  qed
qed

text \<open>
  Claim C1, as the code has it. Over the successive calls for one position, take an
  earlier and a later call that both return a trailing stop. If the trailing distance
  \<open>atr * trailingDistance\<close> of the later tick is not larger than that of the earlier
  tick (in particular when the ATR is the same), the later stop is not worse than the
  earlier one: greater or equal for long, less or equal for short. This holds also
  across ticks in between that return no stop, and for a later price that is worse
  than the extreme.
\<close>

theorem trailing_stop_ratchet:
  assumes ij: "i < j" and j: "j < length ticks"
    and dist: "snd (ticks ! j) * trailingDistance (strategy cfg)
                 \<le> snd (ticks ! i) * trailingDistance (strategy cfg)"
    and s1: "trailingStop (trailing_run cfg e side sl h lo ticks ! i) = Some s1"
    and s2: "trailingStop (trailing_run cfg e side sl h lo ticks ! j) = Some s2"
  shows "(side = Long \<longrightarrow> s1 \<le> s2) \<and> (side = Short \<longrightarrow> s2 \<le> s1)"
proof -
  from ij j have i: "i < length ticks" by simp
  let ?d = "trailingDistance (strategy cfg)"
  let ?r = "trailing_run cfg e side sl h lo ticks"
  have f1: "s1 = (if side = Long then max e (highestPrice (?r ! i) - snd (ticks ! i) * ?d)
                  else min e (lowestPrice (?r ! i) + snd (ticks ! i) * ?d))"
    using run_nth_fields [OF i, of cfg e side sl h lo] s1
    by (simp split: if_splits)
  have f2: "s2 = (if side = Long then max e (highestPrice (?r ! j) - snd (ticks ! j) * ?d)
                  else min e (lowestPrice (?r ! j) + snd (ticks ! j) * ?d))"
    using run_nth_fields [OF j, of cfg e side sl h lo] s2
    by (simp split: if_splits)
  show ?thesis
  proof (cases side)
    case Long
    have "highestPrice (?r ! i) \<le> highestPrice (?r ! j)"
      unfolding Long by (rule run_highest_mono [OF ij j])
    with dist f1 f2 Long show ?thesis by auto
  next
    case Short
    have "lowestPrice (?r ! j) \<le> lowestPrice (?r ! i)"
      unfolding Short by (rule run_lowest_mono [OF ij j])
    with dist f1 f2 Short show ?thesis by auto
  qed
qed

theorem trailing_stop_ratchet_witness:
  "trailingStop (trailing_run example_config 100 Long 90 None None
                   [(120, 2), (105, 2), (115, 1)] ! 0) = Some 118
   \<and> trailingStop (trailing_run example_config 100 Long 90 None None
                   [(120, 2), (105, 2), (115, 1)] ! 2) = Some 119
   \<and> (118::real) \<le> 119
   \<and> trailingStop (trailing_run example_config 100 Short 110 None None
                   [(80, 2), (95, 2), (85, 1)] ! 0) = Some 82
   \<and> trailingStop (trailing_run example_config 100 Short 110 None None
                   [(80, 2), (95, 2), (85, 1)] ! 2) = Some 81
   \<and> (81::real) \<le> 82"
proof -
  have a: "trailingStop (trailing_run example_config 100 Long 90 None None
                   [(120, 2), (105, 2), (115, 1)] ! 0) = Some 118"
    by (simp add: Let_def calculateTrailingStop_def js_div_def example_config_def)
  have b: "trailingStop (trailing_run example_config 100 Long 90 None None
                   [(120, 2), (105, 2), (115, 1)] ! 2) = Some 119"
    by (simp add: Let_def calculateTrailingStop_def js_div_def example_config_def)
  have c: "trailingStop (trailing_run example_config 100 Short 110 None None
                   [(80, 2), (95, 2), (85, 1)] ! 0) = Some 82"
    by (simp add: Let_def calculateTrailingStop_def js_div_def example_config_def)
  have d: "trailingStop (trailing_run example_config 100 Short 110 None None
                   [(80, 2), (95, 2), (85, 1)] ! 2) = Some 81"
    by (simp add: Let_def calculateTrailingStop_def js_div_def example_config_def)
  have long: "(118::real) \<le> 119"
    using trailing_stop_ratchet [OF _ _ _ a b] by (simp add: example_config_def)
  have short: "(81::real) \<le> 82"
    using trailing_stop_ratchet [OF _ _ _ c d] by (simp add: example_config_def)
  from a b c d long short show ?thesis by simp
qed

text \<open>
  The claim as stated, for every sequence of ATR values, fails: the function does not
  see the previous stop, and a larger ATR on a later tick widens the distance. Long
  position entered at 100 with initial stop 90, trailing distance 1: the tick
  (price 120, ATR 1) returns the stop 119; the next tick (price 115, ATR 10), called
  with the returned extremes, is active and returns the stop 110.
\<close>

theorem trailing_stop_ratchet_counterexample:
  "calculateTrailingStop example_config 100 120 None None 90 Long 1 =
     \<lparr>trailingStop = Some 119, highestPrice = 120, lowestPrice = 0, active = True\<rparr>
   \<and> calculateTrailingStop example_config 100 115 (Some 120) (Some 0) 90 Long 10 =
     \<lparr>trailingStop = Some 110, highestPrice = 120, lowestPrice = 0, active = True\<rparr>
   \<and> \<not> ((119::real) \<le> 110)"
  by (simp add: calculateTrailingStop_def js_div_def example_config_def)

text \<open>
  Claim C2, as the code has it. In the successive calls for one position, a call
  returns \<open>active = true\<close> exactly when the profit in R of its own tick is at least
  1.0, whatever the earlier calls returned, and its trailing stop is \<open>null\<close> exactly
  when \<open>active\<close> is false. So after an active call, a later call is active, with a
  trailing stop, when its price still gives a profit of at least 1R, and passive, with
  no trailing stop, when the price has come back below 1R.
\<close>

theorem trailing_active_per_tick:
  assumes "k < length ticks"
  shows "active (trailing_run cfg e side sl h lo ticks ! k) =
           js_ge (js_div (if side = Long then fst (ticks ! k) - e else e - fst (ticks ! k))
                         \<bar>e - sl\<bar>) 1
         \<and> (trailingStop (trailing_run cfg e side sl h lo ticks ! k) = None) =
           (\<not> active (trailing_run cfg e side sl h lo ticks ! k))"
  using run_nth_fields [OF assms, of cfg e side sl h lo] by simp

theorem trailing_active_per_tick_witness:
  "map active (trailing_run example_config 100 Long 90 None None
                 [(110, 1), (105, 1), (112, 1)]) = [True, False, True]
   \<and> map trailingStop (trailing_run example_config 100 Long 90 None None
                 [(110, 1), (105, 1), (112, 1)]) = [Some 109, None, Some 111]"
  using trailing_active_per_tick [of 1 "[(110, 1), (105, 1), (112, 1)]" example_config 100 Long 90 None None]
  by (simp add: Let_def calculateTrailingStop_def js_div_def example_config_def)

text \<open>
  The claim as stated, that an active call is never followed by a passive one, fails.
  Long position entered at 100 with initial stop 90: the tick at price 110 (1R) is
  active with stop 109; the next tick at price 105 (0.5R), called with the returned
  extremes, returns \<open>active = false\<close> and no trailing stop.
\<close>

theorem trailing_active_latch_counterexample:
  "calculateTrailingStop example_config 100 110 None None 90 Long 1 =
     \<lparr>trailingStop = Some 109, highestPrice = 110, lowestPrice = 0, active = True\<rparr>
   \<and> calculateTrailingStop example_config 100 105 (Some 110) (Some 0) 90 Long 1 =
     \<lparr>trailingStop = None, highestPrice = 110, lowestPrice = 0, active = False\<rparr>"
  by (simp add: calculateTrailingStop_def js_div_def example_config_def)

section \<open>Properties of the snapshot builder\<close>

text \<open>
  The configuration records the \<open>try\<close> block builds are copies of the configured
  ones, field by field.
\<close>

lemma copy_configs [simp]:
  "\<lparr>maPeriod = maPeriod kc, atrPeriod = atrPeriod kc, atrMultiple = atrMultiple kc\<rparr> = kc"
  "\<lparr>bbPeriod = bbPeriod bc, deviation = deviation bc\<rparr> = bc"
  "\<lparr>fastPeriod = fastPeriod mc, slowPeriod = slowPeriod mc, signalPeriod = signalPeriod mc\<rparr> = mc"
  "\<lparr>cciPeriod = cciPeriod cc\<rparr> = cc"
  "\<lparr>stPeriod = stPeriod sc, multiplier = multiplier sc\<rparr> = sc"
  by simp_all

lemma try_Some_iff:
  "calculateIndicators_try lib config candles = Inr (Some snap) \<longleftrightarrow>
     getLatestKeltnerChannel lib candles (keltnerConfig (indicatorsConfig (strategy config)))
       = Inr (Some (keltner snap))
   \<and> getLatestBollingerBands lib candles (bollingerConfig (indicatorsConfig (strategy config)))
       = Inr (Some (bollinger snap))
   \<and> getLatestMACD lib candles (macdConfig (indicatorsConfig (strategy config)))
       = Inr (Some (macd snap))
   \<and> getLatestCCI lib candles (cciConfig (indicatorsConfig (strategy config)))
       = Inr (Some (cci snap))
   \<and> getLatestSuperTrend lib candles (supertrendConfig (indicatorsConfig (strategy config)))
       = Inr (Some (supertrend snap))
   \<and> (\<exists>atrValues.
         calculateATR lib (map high candles) (map low candles) (map close candles)
           (atrPeriod (keltnerConfig (indicatorsConfig (strategy config)))) = Inr atrValues
         \<and> atrValues \<noteq> [] \<and> atr snap = atrValues ! (length atrValues - 1))"
  unfolding calculateIndicators_try_def Let_def copy_configs
  by (cases snap) (auto split: sum.splits)


lemma try_None_or_throw:
  "getLatestKeltnerChannel lib candles (keltnerConfig (indicatorsConfig (strategy config)))
       \<in> {Inr None} \<union> range Inl
   \<or> getLatestBollingerBands lib candles (bollingerConfig (indicatorsConfig (strategy config)))
       \<in> {Inr None} \<union> range Inl
   \<or> getLatestMACD lib candles (macdConfig (indicatorsConfig (strategy config)))
       \<in> {Inr None} \<union> range Inl
   \<or> getLatestCCI lib candles (cciConfig (indicatorsConfig (strategy config)))
       \<in> {Inr None} \<union> range Inl
   \<or> getLatestSuperTrend lib candles (supertrendConfig (indicatorsConfig (strategy config)))
       \<in> {Inr None} \<union> range Inl
   \<or> calculateATR lib (map high candles) (map low candles) (map close candles)
           (atrPeriod (keltnerConfig (indicatorsConfig (strategy config))))
       \<in> {Inr []} \<union> range Inl
   \<Longrightarrow> calculateIndicators_try lib config candles \<noteq> Inr (Some snap)"
  unfolding try_Some_iff by auto

lemma calculateIndicators_fst:
  "fst (calculateIndicators lib config candles console) =
     (if length candles < 35 then None
      else case calculateIndicators_try lib config candles of
             Inr result \<Rightarrow> result | Inl err \<Rightarrow> None)"
  by (simp add: calculateIndicators_def split: sum.splits)

lemma example_try:
  "calculateIndicators_try example_adapters example_config cs = Inr (Some example_snapshot)"
  by (simp add: calculateIndicators_try_def example_adapters_def example_snapshot_def Let_def)

text \<open>
  Claim C5. \<open>calculateIndicators\<close> returns \<open>null\<close> whenever the candle list has fewer
  than 35 elements, and whenever one of the adapters returns \<open>null\<close> or throws, or the
  ATR series is empty or its computation throws: a thrown value is caught and the
  result is \<open>null\<close> all the same. Whenever a snapshot is returned, there are at least
  35 candles, and every field of the snapshot is the value its adapter returned, with
  \<open>atr\<close> the last element of a non-empty ATR series: no field is left out.
\<close>

theorem calculateIndicators_fail_closed:
  fixes lib :: Adapters and config :: TradingConfig and candles :: "Candle list"
  defines "ic \<equiv> indicatorsConfig (strategy config)"
  defines "atrSeries \<equiv> calculateATR lib (map high candles) (map low candles)
                          (map close candles) (atrPeriod (keltnerConfig ic))"
  shows
    "(length candles < 35 \<longrightarrow> fst (calculateIndicators lib config candles console) = None)
     \<and> (getLatestKeltnerChannel lib candles (keltnerConfig ic) \<in> {Inr None} \<union> range Inl
         \<or> getLatestBollingerBands lib candles (bollingerConfig ic) \<in> {Inr None} \<union> range Inl
         \<or> getLatestMACD lib candles (macdConfig ic) \<in> {Inr None} \<union> range Inl
         \<or> getLatestCCI lib candles (cciConfig ic) \<in> {Inr None} \<union> range Inl
         \<or> getLatestSuperTrend lib candles (supertrendConfig ic) \<in> {Inr None} \<union> range Inl
         \<or> atrSeries \<in> {Inr []} \<union> range Inl
         \<longrightarrow> fst (calculateIndicators lib config candles console) = None)
     \<and> (fst (calculateIndicators lib config candles console) = Some snap \<longrightarrow>
           35 \<le> length candles
         \<and> getLatestKeltnerChannel lib candles (keltnerConfig ic) = Inr (Some (keltner snap))
         \<and> getLatestBollingerBands lib candles (bollingerConfig ic)
             = Inr (Some (bollinger snap))
         \<and> getLatestMACD lib candles (macdConfig ic) = Inr (Some (macd snap))
         \<and> getLatestCCI lib candles (cciConfig ic) = Inr (Some (cci snap))
         \<and> getLatestSuperTrend lib candles (supertrendConfig ic)
             = Inr (Some (supertrend snap))
         \<and> (\<exists>atrValues. atrSeries = Inr atrValues \<and> atrValues \<noteq> []
               \<and> atr snap = atrValues ! (length atrValues - 1)))"
proof -
  have short: "length candles < 35 \<longrightarrow>
      fst (calculateIndicators lib config candles console) = None"
    by (simp add: calculateIndicators_fst)
  have failed:
    "getLatestKeltnerChannel lib candles (keltnerConfig ic) \<in> {Inr None} \<union> range Inl
     \<or> getLatestBollingerBands lib candles (bollingerConfig ic) \<in> {Inr None} \<union> range Inl
     \<or> getLatestMACD lib candles (macdConfig ic) \<in> {Inr None} \<union> range Inl
     \<or> getLatestCCI lib candles (cciConfig ic) \<in> {Inr None} \<union> range Inl
     \<or> getLatestSuperTrend lib candles (supertrendConfig ic) \<in> {Inr None} \<union> range Inl
     \<or> atrSeries \<in> {Inr []} \<union> range Inl
     \<longrightarrow> fst (calculateIndicators lib config candles console) = None"
  proof (rule impI)
    assume bad:
      "getLatestKeltnerChannel lib candles (keltnerConfig ic) \<in> {Inr None} \<union> range Inl
       \<or> getLatestBollingerBands lib candles (bollingerConfig ic) \<in> {Inr None} \<union> range Inl
       \<or> getLatestMACD lib candles (macdConfig ic) \<in> {Inr None} \<union> range Inl
       \<or> getLatestCCI lib candles (cciConfig ic) \<in> {Inr None} \<union> range Inl
       \<or> getLatestSuperTrend lib candles (supertrendConfig ic) \<in> {Inr None} \<union> range Inl
       \<or> atrSeries \<in> {Inr []} \<union> range Inl"
    have "calculateIndicators_try lib config candles \<noteq> Inr (Some s)" for s
      by (rule try_None_or_throw) (use bad in \<open>simp only: ic_def atrSeries_def\<close>)
    then have "\<forall>s. calculateIndicators_try lib config candles \<noteq> Inr (Some s)"
      by blast
    then show "fst (calculateIndicators lib config candles console) = None"
      by (cases "calculateIndicators_try lib config candles")
         (simp_all add: calculateIndicators_fst)
  qed
  have built:
    "fst (calculateIndicators lib config candles console) = Some snap \<longrightarrow>
     35 \<le> length candles
     \<and> getLatestKeltnerChannel lib candles (keltnerConfig ic) = Inr (Some (keltner snap))
     \<and> getLatestBollingerBands lib candles (bollingerConfig ic)
         = Inr (Some (bollinger snap))
     \<and> getLatestMACD lib candles (macdConfig ic) = Inr (Some (macd snap))
     \<and> getLatestCCI lib candles (cciConfig ic) = Inr (Some (cci snap))
     \<and> getLatestSuperTrend lib candles (supertrendConfig ic)
         = Inr (Some (supertrend snap))
     \<and> (\<exists>atrValues. atrSeries = Inr atrValues \<and> atrValues \<noteq> []
           \<and> atr snap = atrValues ! (length atrValues - 1))"
  proof (rule impI)
    assume some: "fst (calculateIndicators lib config candles console) = Some snap"
    then have len: "35 \<le> length candles"
      by (simp add: calculateIndicators_fst split: if_splits)
    with some have "calculateIndicators_try lib config candles = Inr (Some snap)"
      by (simp add: calculateIndicators_fst split: sum.splits)
    then show "35 \<le> length candles
     \<and> getLatestKeltnerChannel lib candles (keltnerConfig ic) = Inr (Some (keltner snap))
     \<and> getLatestBollingerBands lib candles (bollingerConfig ic)
         = Inr (Some (bollinger snap))
     \<and> getLatestMACD lib candles (macdConfig ic) = Inr (Some (macd snap))
     \<and> getLatestCCI lib candles (cciConfig ic) = Inr (Some (cci snap))
     \<and> getLatestSuperTrend lib candles (supertrendConfig ic)
         = Inr (Some (supertrend snap))
     \<and> (\<exists>atrValues. atrSeries = Inr atrValues \<and> atrValues \<noteq> []
           \<and> atr snap = atrValues ! (length atrValues - 1))"
      using len unfolding try_Some_iff ic_def atrSeries_def by simp
  qed
  show ?thesis
    by (rule conjI [OF short conjI [OF failed built]])
qed

theorem calculateIndicators_fail_closed_witness:
  "length (replicate 34 example_candle) < 35
   \<and> fst (calculateIndicators example_adapters example_config
            (replicate 34 example_candle) []) = None
   \<and> fst (calculateIndicators
            (example_adapters\<lparr>getLatestCCI := (\<lambda>candles c. Inr None)\<rparr>) example_config
            (replicate 35 example_candle) []) = None
   \<and> calculateIndicators
        (example_adapters\<lparr>getLatestMACD := (\<lambda>candles c. Inl (ErrorObject ''boom''))\<rparr>)
        example_config (replicate 35 example_candle) []
       = (None, [ErrorCalculatingIndicators (ErrorObject ''boom'')])
   \<and> fst (calculateIndicators example_adapters example_config
            (replicate 35 example_candle) []) = Some example_snapshot
   \<and> getLatestCCI example_adapters (replicate 35 example_candle)
        (cciConfig (indicatorsConfig (strategy example_config)))
       = Inr (Some (cci example_snapshot))"
proof -
  have a: "fst (calculateIndicators example_adapters example_config
            (replicate 35 example_candle) []) = Some example_snapshot"
    by (simp add: calculateIndicators_fst example_try)
  have b: "getLatestCCI (example_adapters\<lparr>getLatestCCI := (\<lambda>candles c. Inr None)\<rparr>)
             (replicate 35 example_candle)
             (cciConfig (indicatorsConfig (strategy example_config))) = Inr None"
    by simp
  have c: "calculateIndicators
        (example_adapters\<lparr>getLatestMACD := (\<lambda>candles c. Inl (ErrorObject ''boom''))\<rparr>)
        example_config (replicate 35 example_candle) []
       = (None, [ErrorCalculatingIndicators (ErrorObject ''boom'')])"
    by (simp add: calculateIndicators_def calculateIndicators_try_def example_adapters_def
          example_snapshot_def Let_def)
  show ?thesis
    using calculateIndicators_fail_closed
            [of "replicate 34 example_candle" example_adapters example_config "[]"]
          calculateIndicators_fail_closed
            [of "replicate 35 example_candle"
                "example_adapters\<lparr>getLatestCCI := (\<lambda>candles c. Inr None)\<rparr>"
                example_config "[]"]
          calculateIndicators_fail_closed
            [of "replicate 35 example_candle" example_adapters example_config "[]"
                example_snapshot]
          a b c
    by simp
qed

section \<open>Properties of the entry evaluator\<close>

text \<open>The \<open>signal\<close> flag of both checks as one condition.\<close>

lemma checkLongEntry_signal:
  "signal (checkLongEntry lib p ind cs tier i5) =
     (p > upper (keltner ind) \<and> p > upper (bollinger ind)
      \<and> isMACDBullishCrossover lib cs \<lparr>fastPeriod = 12, slowPeriod = 26, signalPeriod = 9\<rparr>
      \<and> (if tier = 1 then cci ind > 100 \<and> trend (supertrend ind) = Up
          else if tier = 2 then cci ind > 50 \<and> trend (supertrend ind) = Up
          else cci ind > 0))"
  by (simp add: checkLongEntry_def Let_def)

lemma checkShortEntry_signal:
  "signal (checkShortEntry lib p ind cs tier i5) =
     (p < lower (keltner ind) \<and> p < lower (bollinger ind)
      \<and> isMACDBearishCrossover lib cs \<lparr>fastPeriod = 12, slowPeriod = 26, signalPeriod = 9\<rparr>
      \<and> (if tier = 1 then cci ind < - 100 \<and> trend (supertrend ind) = Down
          else if tier = 2 then cci ind < - 50 \<and> trend (supertrend ind) = Down
          else cci ind < 0))"
  by (simp add: checkShortEntry_def Let_def)

text \<open>
  Claim C3. For every price, snapshot, candle list and tier in \<open>{1, 2, 3}\<close>,
  \<open>checkLongEntry\<close> signals exactly when the price is strictly above the Keltner upper
  band and strictly above the Bollinger upper band, \<open>isMACDBullishCrossover\<close> holds of
  the candles with the fixed configuration 12/26/9, and the tier's auxiliary filter
  holds. When it does not signal, the reason is that of the first guard that fails, in
  this order (within the auxiliary filter, the CCI before the SuperTrend): a Keltner
  failure is reported as such also when the Bollinger breakout would pass, and
  breaking one band only never signals. \<open>checkShortEntry\<close> is the
  mirror image, with the lower bands, \<open>isMACDBearishCrossover\<close> and the negated
  thresholds.
\<close>

theorem entry_guards:
  assumes tier: "tier \<in> {1, 2, 3}"
  shows
    "signal (checkLongEntry lib p ind cs tier i5) =
       (p > upper (keltner ind) \<and> p > upper (bollinger ind)
        \<and> isMACDBullishCrossover lib cs
              \<lparr>fastPeriod = 12, slowPeriod = 26, signalPeriod = 9\<rparr>
        \<and> spec_long_auxiliary tier ind)
     \<and> (\<not> p > upper (keltner ind) \<longrightarrow>
          reason (checkLongEntry lib p ind cs tier i5)
            = PriceNotAboveKC p (upper (keltner ind)))
     \<and> (p > upper (keltner ind) \<and> \<not> p > upper (bollinger ind) \<longrightarrow>
          reason (checkLongEntry lib p ind cs tier i5)
            = PriceNotAboveBB p (upper (bollinger ind)))
     \<and> (p > upper (keltner ind) \<and> p > upper (bollinger ind)
          \<and> \<not> isMACDBullishCrossover lib cs
                 \<lparr>fastPeriod = 12, slowPeriod = 26, signalPeriod = 9\<rparr> \<longrightarrow>
          reason (checkLongEntry lib p ind cs tier i5) = MACDNoBullishCrossover)
     \<and> (p > upper (keltner ind) \<and> p > upper (bollinger ind)
          \<and> isMACDBullishCrossover lib cs
                 \<lparr>fastPeriod = 12, slowPeriod = 26, signalPeriod = 9\<rparr>
          \<and> \<not> spec_long_auxiliary tier ind \<longrightarrow>
          reason (checkLongEntry lib p ind cs tier i5)
            = (if tier = 1
               then (if cci ind > 100 then SuperTrendNotBullish
                     else CCINotStrongLong (cci ind) 100)
               else if tier = 2
               then (if cci ind > 50 then SuperTrendNotBullish
                     else CCINotStrongLong (cci ind) 50)
               else CCINotPositive (cci ind)))
     \<and> signal (checkShortEntry lib p ind cs tier i5) =
       (p < lower (keltner ind) \<and> p < lower (bollinger ind)
        \<and> isMACDBearishCrossover lib cs
              \<lparr>fastPeriod = 12, slowPeriod = 26, signalPeriod = 9\<rparr>
        \<and> spec_short_auxiliary tier ind)
     \<and> (\<not> p < lower (keltner ind) \<longrightarrow>
          reason (checkShortEntry lib p ind cs tier i5)
            = PriceNotBelowKC p (lower (keltner ind)))
     \<and> (p < lower (keltner ind) \<and> \<not> p < lower (bollinger ind) \<longrightarrow>
          reason (checkShortEntry lib p ind cs tier i5)
            = PriceNotBelowBB p (lower (bollinger ind)))
     \<and> (p < lower (keltner ind) \<and> p < lower (bollinger ind)
          \<and> \<not> isMACDBearishCrossover lib cs
                 \<lparr>fastPeriod = 12, slowPeriod = 26, signalPeriod = 9\<rparr> \<longrightarrow>
          reason (checkShortEntry lib p ind cs tier i5) = MACDNoBearishCrossover)
     \<and> (p < lower (keltner ind) \<and> p < lower (bollinger ind)
          \<and> isMACDBearishCrossover lib cs
                 \<lparr>fastPeriod = 12, slowPeriod = 26, signalPeriod = 9\<rparr>
          \<and> \<not> spec_short_auxiliary tier ind \<longrightarrow>
          reason (checkShortEntry lib p ind cs tier i5)
            = (if tier = 1
               then (if cci ind < - 100 then SuperTrendNotBearish
                     else CCINotStrongShort (cci ind) (- 100))
               else if tier = 2
               then (if cci ind < - 50 then SuperTrendNotBearish
                     else CCINotStrongShort (cci ind) (- 50))
               else CCINotNegative (cci ind)))"
proof -
  from tier consider "tier = 1" | "tier = 2" | "tier = 3" by auto
  then show ?thesis
  proof cases
    case 1
    then show ?thesis
      by (simp add: checkLongEntry_def checkShortEntry_def Let_def
            spec_long_auxiliary_def spec_short_auxiliary_def)
  next
    case 2
    then show ?thesis
      by (simp add: checkLongEntry_def checkShortEntry_def Let_def
            spec_long_auxiliary_def spec_short_auxiliary_def)
  next
    case 3
    then show ?thesis
      by (simp add: checkLongEntry_def checkShortEntry_def Let_def
            spec_long_auxiliary_def spec_short_auxiliary_def)
  qed
qed

theorem entry_guards_witness:
  "(1::nat) \<in> {1, 2, 3}
   \<and> checkLongEntry example_adapters 2050 example_snapshot [] 1 None
       = \<lparr>signal = True, reason = LongConservative 120\<rparr>
   \<and> checkLongEntry example_adapters 2042 example_snapshot [] 1 None
       = \<lparr>signal = False, reason = PriceNotAboveKC 2042 2045\<rparr>
   \<and> (2042::real) > upper (bollinger example_snapshot)
   \<and> checkLongEntry example_adapters 2050 (example_snapshot\<lparr>cci := 100\<rparr>) [] 1 None
       = \<lparr>signal = False, reason = CCINotStrongLong 100 100\<rparr>
   \<and> checkShortEntry example_adapters 2050 example_snapshot [] 1 None
       = \<lparr>signal = False, reason = PriceNotBelowKC 2050 2015\<rparr>"
  using entry_guards [of 1 example_adapters 2050 example_snapshot "[]" None]
        entry_guards [of 1 example_adapters 2042 example_snapshot "[]" None]
  by (simp add: checkLongEntry_def checkShortEntry_def example_adapters_def
        example_snapshot_def)

text \<open>
  Claim C4. For a fixed price, snapshot and candle list, a long signal at tier 1 implies
  a long signal at tiers 2 and 3, and a long signal at tier 2 implies one at tier 3;
  the same for short signals. (The converse fails: with a CCI of 80 the example
  signals at tiers 2 and 3 and not at tier 1.)
\<close>

theorem tier_monotonicity:
  "(signal (checkLongEntry lib p ind cs 1 i5) \<longrightarrow>
      signal (checkLongEntry lib p ind cs 2 i5) \<and> signal (checkLongEntry lib p ind cs 3 i5))
   \<and> (signal (checkLongEntry lib p ind cs 2 i5) \<longrightarrow> signal (checkLongEntry lib p ind cs 3 i5))
   \<and> (signal (checkShortEntry lib p ind cs 1 i5) \<longrightarrow>
      signal (checkShortEntry lib p ind cs 2 i5) \<and> signal (checkShortEntry lib p ind cs 3 i5))
   \<and> (signal (checkShortEntry lib p ind cs 2 i5) \<longrightarrow> signal (checkShortEntry lib p ind cs 3 i5))"
  by (simp add: checkLongEntry_signal checkShortEntry_signal)

theorem tier_monotonicity_witness:
  "signal (checkLongEntry example_adapters 2050 example_snapshot [] 1 None)
   \<and> signal (checkLongEntry example_adapters 2050 example_snapshot [] 2 None)
   \<and> signal (checkLongEntry example_adapters 2050 example_snapshot [] 3 None)
   \<and> \<not> signal (checkLongEntry example_adapters 2050 (example_snapshot\<lparr>cci := 80\<rparr>) [] 1 None)
   \<and> signal (checkLongEntry example_adapters 2050 (example_snapshot\<lparr>cci := 80\<rparr>) [] 2 None)
   \<and> signal (checkLongEntry example_adapters 2050 (example_snapshot\<lparr>cci := 80\<rparr>) [] 3 None)"
  using tier_monotonicity [of example_adapters 2050 example_snapshot "[]" None]
        tier_monotonicity [of example_adapters 2050 "example_snapshot\<lparr>cci := 80\<rparr>" "[]" None]
  by (simp add: checkLongEntry_def example_adapters_def example_snapshot_def)

section \<open>Properties of the signal generator\<close>

text \<open>
  The signal \<open>generateSignal\<close> returns on a non-empty candle list is the one it returns
  at time 0 from the initial state.
\<close>

lemma generateSignal_fst:
  "fst (generateSignal lib config now candles1m candles5m self) =
     (if length candles1m = 0
      then \<lparr>sigType = NoSignal, sigReason = NoCandleData, sigTimestamp = now,
             sigPrice = 0, sigIndicators = None\<rparr>
      else fst (generateSignal lib config 0 candles1m candles5m
                  \<lparr>signalCheckCount = 0, indicatorFailCount = 0, longCheckCount = 0,
                   shortCheckCount = 0, consoleOutput = []\<rparr>))"
  unfolding generateSignal_def Let_def split_beta
  by (simp add: calculateIndicators_fst split: option.splits)

text \<open>
  Claim C9. With the adapters being functions of their arguments, on a non-empty
  1-minute candle list the signal returned by \<open>generateSignal\<close> depends on the candle
  lists and the configuration only: neither the counters and the console output of
  the instance nor the clock enter it, so a second call on the instance as the first
  call left it returns the same signal, field for field. On an empty 1-minute list the
  signal is the fixed \<open>none\<close> signal whose timestamp is the clock's value.
\<close>

theorem generateSignal_deterministic:
  "(candles1m \<noteq> [] \<longrightarrow>
      fst (generateSignal lib config now candles1m candles5m self)
        = fst (generateSignal lib config now' candles1m candles5m self'))
   \<and> (candles1m \<noteq> [] \<longrightarrow>
      fst (generateSignal lib config now' candles1m candles5m
             (snd (generateSignal lib config now candles1m candles5m self)))
        = fst (generateSignal lib config now candles1m candles5m self))
   \<and> fst (generateSignal lib config now [] candles5m self)
        = \<lparr>sigType = NoSignal, sigReason = NoCandleData, sigTimestamp = now,
           sigPrice = 0, sigIndicators = None\<rparr>"
proof -
  have "fst (generateSignal lib config a candles1m candles5m s)
          = fst (generateSignal lib config b candles1m candles5m t)"
    if "candles1m \<noteq> []" for a b s t
    using that
    by (simp add: generateSignal_fst [of lib config a candles1m candles5m s]
          generateSignal_fst [of lib config b candles1m candles5m t])
  moreover have "fst (generateSignal lib config now [] candles5m self)
        = \<lparr>sigType = NoSignal, sigReason = NoCandleData, sigTimestamp = now,
           sigPrice = 0, sigIndicators = None\<rparr>"
    by (simp add: generateSignal_def)
  ultimately show ?thesis by blast
qed

theorem generateSignal_deterministic_witness:
  "replicate 35 example_candle \<noteq> []
   \<and> fst (generateSignal example_adapters example_config 1 (replicate 35 example_candle) None
            \<lparr>signalCheckCount = 0, indicatorFailCount = 0, longCheckCount = 0,
             shortCheckCount = 0, consoleOutput = []\<rparr>)
       = \<lparr>sigType = LongSignal, sigReason = LongConservative 120, sigTimestamp = 60000,
          sigPrice = 2050, sigIndicators = Some example_snapshot\<rparr>
   \<and> fst (generateSignal example_adapters example_config 2 (replicate 35 example_candle) None
            (snd (generateSignal example_adapters example_config 1
                    (replicate 35 example_candle) None
                    \<lparr>signalCheckCount = 0, indicatorFailCount = 0, longCheckCount = 0,
                     shortCheckCount = 0, consoleOutput = []\<rparr>)))
       = \<lparr>sigType = LongSignal, sigReason = LongConservative 120, sigTimestamp = 60000,
          sigPrice = 2050, sigIndicators = Some example_snapshot\<rparr>
   \<and> snd (generateSignal example_adapters example_config 1 (replicate 35 example_candle) None
            \<lparr>signalCheckCount = 0, indicatorFailCount = 0, longCheckCount = 0,
             shortCheckCount = 0, consoleOutput = []\<rparr>)
       = \<lparr>signalCheckCount = 1, indicatorFailCount = 0, longCheckCount = 1,
          shortCheckCount = 0,
          consoleOutput = [SignalFound Long 1 (LongConservative 120)]\<rparr>"
proof -
  have calc: "calculateIndicators example_adapters example_config
                (replicate 35 example_candle) con = (Some example_snapshot, con)" for con
    by (simp add: calculateIndicators_def example_try)
  have long: "checkLongEntry example_adapters 2050 example_snapshot cs (Suc 0) None
       = \<lparr>signal = True, reason = LongConservative 120\<rparr>" for cs
    by (simp add: checkLongEntry_def example_adapters_def example_snapshot_def)
  have first: "generateSignal example_adapters example_config 1
                 (replicate 35 example_candle) None
            \<lparr>signalCheckCount = 0, indicatorFailCount = 0, longCheckCount = 0,
             shortCheckCount = 0, consoleOutput = []\<rparr>
        = (\<lparr>sigType = LongSignal, sigReason = LongConservative 120, sigTimestamp = 60000,
            sigPrice = 2050, sigIndicators = Some example_snapshot\<rparr>,
           \<lparr>signalCheckCount = 1, indicatorFailCount = 0, longCheckCount = 1,
            shortCheckCount = 0,
            consoleOutput = [SignalFound Long 1 (LongConservative 120)]\<rparr>)"
  proof -
    have c: "close example_candle = 2050" "closeTime example_candle = 60000"
      by (simp_all add: example_candle_def)
    have t: "aggressivenessLevel (strategy example_config) = 1"
      by (simp add: example_config_def)
    show ?thesis
      by (simp add: generateSignal_def Let_def calc long c t)
  qed
  show ?thesis
    using generateSignal_deterministic
            [of "replicate 35 example_candle" example_adapters example_config 2 None
                "snd (generateSignal example_adapters example_config 1
                    (replicate 35 example_candle) None
                    \<lparr>signalCheckCount = 0, indicatorFailCount = 0, longCheckCount = 0,
                     shortCheckCount = 0, consoleOutput = []\<rparr>)"
                1
                "\<lparr>signalCheckCount = 0, indicatorFailCount = 0, longCheckCount = 0,
                     shortCheckCount = 0, consoleOutput = []\<rparr>"]
    by (simp add: first)
qed

end
